theory Spec2Isabelle
  imports Complex_Main
begin

section \<open>The Discord bot of \<^verbatim>\<open>bot/discordsmf.py\<close>\<close>

text \<open>
  The module keeps its state in globals (\<^verbatim>\<open>config\<close>, \<^verbatim>\<open>client\<close>,
  \<^verbatim>\<open>discord_server\<close>, \<^verbatim>\<open>discord_channel\<close>, \<^verbatim>\<open>top_role\<close>,
  \<^verbatim>\<open>heartbeat_task\<close>) and writes to one logger. The embedding passes a record of
  these globals through every coroutine; what the logger received is the list \<open>logged\<close>,
  oldest line first. A Python \<^verbatim>\<open>str\<close> is the list of the bytes of its UTF-8
  encoding, so that every name has a model and a case fold may change the length.
\<close>

subsection \<open>Strings\<close>

text \<open>
  \<^verbatim>\<open>str.casefold\<close> belongs to the Python library; the code only calls it. It is the
  parameter \<open>casefold\<close> of \<open>next_named\<close> and \<open>on_ready\<close> below, and nothing is
  assumed of it there, so that what is proved of them holds for the library's function
  on every name, whatever its letters.

  On a string of ASCII characters the library folds and lowers letters in the same way,
  which is \<open>ascii_lower\<close>: the letters A to Z become a to z and every other character
  stays as it is. A theorem that needs this of \<open>casefold\<close> says so in a hypothesis.
\<close>

definition ascii_lower_char :: "char \<Rightarrow> char" where
  "ascii_lower_char c =
     (let n = (of_char c :: nat) in if 65 \<le> n \<and> n \<le> 90 then char_of (n + 32) else c)"

definition ascii_lower :: "string \<Rightarrow> string" where
  "ascii_lower s = map ascii_lower_char s"

definition is_ascii :: "string \<Rightarrow> bool" where
  "is_ascii s = list_all (\<lambda>c. (of_char c :: nat) < 128) s"

text \<open>\<^verbatim>\<open>str(n)\<close> of a length, as \<^verbatim>\<open>"{}".format(len(...))\<close> prints it.\<close>

fun str_nat :: "nat \<Rightarrow> string" where
  "str_nat n =
     (if n < 10 then [char_of (48 + n)]
      else str_nat (n div 10) @ [char_of (48 + n mod 10)])"

declare str_nat.simps [simp del]

subsection \<open>The entities of the chat service\<close>

record role =
  r_name :: string
  position :: int

record channel =
  c_id :: string
  c_name :: string

record server =
  s_name :: string
  channels :: "channel list"
  roles :: "role list"

record user =
  u_name :: string
  u_id :: string

record member =
  nick :: "string option"
  m_name :: string

text \<open>
  The author of a message is a member of the server, with the attribute \<^verbatim>\<open>nick\<close>,
  or, when the library does not find the author among the members of the server (a
  webhook, somebody who has left), a plain user, which has no such attribute.
\<close>

datatype author = Member member | User user

record message =
  msg_id :: string
  author :: author
  content :: string
  channel :: channel

subsection \<open>The globals\<close>

text \<open>The five properties of \<^verbatim>\<open>BotConfig\<close>, each \<open>None\<close> when its getter returns \<^verbatim>\<open>None\<close>.\<close>

record bot_config =
  log_path :: "string option"
  server_name :: "string option"
  channel_name :: "string option"
  send_interval :: "real option"
  token :: "string option"

datatype level = INFO | ERROR

text \<open>
  An asyncio task is pending until it returns or is cancelled; once cancelled or
  finished, its coroutine never runs again.
\<close>

datatype task = Pending | Cancelled | Finished

datatype error = AttributeError | ValueError | KeyError

record bot =
  config :: bot_config
  client_user :: user
  client_servers :: "server list"
  client_is_closed :: bool
  discord_server :: "server option"
  discord_channel :: "channel option"
  top_role :: "role option"
  heartbeat_task :: "task option"
  clock :: real
  logged :: "(level \<times> string) list"

definition logger_info :: "string \<Rightarrow> bot \<Rightarrow> bot" where
  "logger_info msg s = s\<lparr>logged := logged s @ [(INFO, msg)]\<rparr>"

definition logger_error :: "string \<Rightarrow> bot \<Rightarrow> bot" where
  "logger_error msg s = s\<lparr>logged := logged s @ [(ERROR, msg)]\<rparr>"

text \<open>\<^verbatim>\<open>client.close()\<close>: the client is closed afterwards, whatever it was before.\<close>

definition client_close :: "bot \<Rightarrow> bot" where
  "client_close s = s\<lparr>client_is_closed := True\<rparr>"

text \<open>\<^verbatim>\<open>Task.cancel()\<close>: a pending task is cancelled, a done one stays as it is.\<close>

definition task_cancel :: "task \<Rightarrow> task" where
  "task_cancel t = (case t of Pending \<Rightarrow> Cancelled | Cancelled \<Rightarrow> Cancelled | Finished \<Rightarrow> Finished)"

subsection \<open>Entity resolution: \<^verbatim>\<open>on_ready\<close>\<close>

text \<open>
  \<^verbatim>\<open>next((e for e in es if e.name.casefold() == wanted))\<close>: the first entity of the
  iteration whose case-folded name equals \<open>wanted\<close>; \<open>None\<close> stands for
  \<^verbatim>\<open>StopIteration\<close>.
\<close>

fun next_named ::
  "(string \<Rightarrow> string) \<Rightarrow> ('a \<Rightarrow> string) \<Rightarrow> string \<Rightarrow> 'a list \<Rightarrow> 'a option" where
  "next_named casefold name wanted [] = None"
| "next_named casefold name wanted (e # es) =
     (if casefold (name e) = wanted then Some e else next_named casefold name wanted es)"

text \<open>
  \<^verbatim>\<open>max(roles, key=lambda r: r.position)\<close>: the first role of greatest position;
  \<open>None\<close> stands for the \<^verbatim>\<open>ValueError\<close> of an empty sequence.
\<close>

fun max_position :: "role list \<Rightarrow> role option" where
  "max_position [] = None"
| "max_position (r # rs) =
     Some (foldl (\<lambda>best x. if position best < position x then x else best) r rs)"

text \<open>
  A coroutine that can raise returns the exception, if any, together with the globals as
  it left them: assignments and log lines made before the exception stay.
\<close>

definition on_ready :: "(string \<Rightarrow> string) \<Rightarrow> bot \<Rightarrow> error option \<times> bot" where
  "on_ready casefold s0 =
     (let s1 = logger_info ''=== CONNECTED ==='' s0;
          s2 = logger_info (''Call me '' @ u_name (client_user s1) @ '' (''
                              @ u_id (client_user s1) @ '')'') s1;
          s3 = logger_info (''Member of '' @ str_nat (length (client_servers s2))
                              @ '' servers'') s2
      in case server_name (config s3) of
           None \<Rightarrow> (Some AttributeError, s3)
         | Some sn \<Rightarrow>
             (case next_named casefold s_name (casefold sn) (client_servers s3) of
                None \<Rightarrow>
                  (None, client_close
                     (logger_error (''Not a member of any server named '' @ [CHR 0x27]
                                      @ sn @ [CHR 0x27] @ ''!'') s3))
              | Some srv \<Rightarrow>
                  (let s4 = s3\<lparr>discord_server := Some srv\<rparr>
                   in case channel_name (config s4) of
                        None \<Rightarrow> (Some AttributeError, s4)
                      | Some cn \<Rightarrow>
                          (case next_named casefold c_name (casefold cn) (channels srv) of
                             None \<Rightarrow>
                               (None, client_close
                                  (logger_error ([CHR 0x27] @ s_name srv @ [CHR 0x27]
                                     @ '' does not have any channels named '' @ [CHR 0x27]
                                     @ cn @ [CHR 0x27] @ ''!'') s4))
                           | Some ch \<Rightarrow>
                               (let s5 = s4\<lparr>discord_channel := Some ch\<rparr>;
                                    s6 = logger_info (''Listening to #'' @ c_name ch @ '' on ''
                                           @ [CHR 0x27] @ s_name srv @ [CHR 0x27]) s5
                                in case max_position (roles srv) of
                                     None \<Rightarrow> (Some ValueError, s6)
                                   | Some r \<Rightarrow>
                                       (None, logger_info
                                          (''Treating members in '' @ [CHR 0x27] @ r_name r
                                             @ [CHR 0x27]
                                             @ '' a little bit better than everyone else'')
                                          (s6\<lparr>top_role := Some r\<rparr>)))))))"

subsection \<open>The event handlers\<close>

text \<open>
  \<^verbatim>\<open>message.channel != discord_channel\<close>: the library compares two channels by
  their identifiers, and a channel differs from \<^verbatim>\<open>None\<close>.
\<close>

definition channel_ne :: "channel \<Rightarrow> channel option \<Rightarrow> bool" where
  "channel_ne c target = (case target of None \<Rightarrow> True | Some t \<Rightarrow> c_id c \<noteq> c_id t)"

text \<open>
  \<^verbatim>\<open>author.nick or author.name\<close>: the nickname of a member unless it is \<^verbatim>\<open>None\<close>
  or empty, then the name; reading \<^verbatim>\<open>nick\<close> of a plain user raises
  \<^verbatim>\<open>AttributeError\<close>.
\<close>

definition nick_or_name :: "author \<Rightarrow> error + string" where
  "nick_or_name a =
     (case a of
        User u \<Rightarrow> Inl AttributeError
      | Member m \<Rightarrow>
          Inr (case nick m of None \<Rightarrow> m_name m | Some n \<Rightarrow> if n = [] then m_name m else n))"

text \<open>
  The handlers return the exception, if any, and the globals, as \<open>on_ready\<close> does. The
  author is read while the first line is formatted, so an exception there comes before
  any line of the handler is logged.
\<close>

definition on_message :: "message \<Rightarrow> bot \<Rightarrow> error option \<times> bot" where
  "on_message m s =
     (if channel_ne (channel m) (discord_channel s) then (None, s)
      else case nick_or_name (author m) of
             Inl e \<Rightarrow> (Some e, s)
           | Inr a \<Rightarrow> (None, logger_info (''<'' @ a @ ''> '' @ content m) s))"

definition on_message_edit :: "message \<Rightarrow> message \<Rightarrow> bot \<Rightarrow> error option \<times> bot" where
  "on_message_edit before after s =
     (if channel_ne (channel after) (discord_channel s) then (None, s)
      else if content before = content after then (None, s)
      else case nick_or_name (author after) of
             Inl e \<Rightarrow> (Some e, s)
           | Inr a \<Rightarrow>
               (None, logger_info ([CHR 0x09] @ content after)
                        (logger_info ([CHR 0x09] @ content before)
                           (logger_info (''EDITED: <'' @ a @ ''> ''
                                           @ msg_id before @ ''->'' @ msg_id after) s))))"

definition on_message_delete :: "message \<Rightarrow> bot \<Rightarrow> error option \<times> bot" where
  "on_message_delete m s =
     (if channel_ne (channel m) (discord_channel s) then (None, s)
      else case nick_or_name (author m) of
             Inl e \<Rightarrow> (Some e, s)
           | Inr a \<Rightarrow> (None, logger_info (''DELTEATED: <'' @ a @ ''> '' @ content m) s))"

subsection \<open>Heartbeat and shutdown\<close>

text \<open>
  \<^verbatim>\<open>heartbeat(interval)\<close> under the event loop, for \<open>n\<close> periods of \<open>interval\<close>
  seconds. In each period the clock advances by \<open>interval\<close>; a pending task then wakes
  from its sleep, returns if the client is closed and logs one line otherwise; a task
  that is cancelled, finished or was never created does nothing while the time passes.
\<close>

fun heartbeat :: "real \<Rightarrow> nat \<Rightarrow> bot \<Rightarrow> bot" where
  "heartbeat interval 0 s = s"
| "heartbeat interval (Suc n) s =
     (let s' = s\<lparr>clock := clock s + interval\<rparr>
      in case heartbeat_task s' of
           Some Pending \<Rightarrow>
             (if client_is_closed s' then heartbeat interval n (s'\<lparr>heartbeat_task := Some Finished\<rparr>)
              else heartbeat interval n (logger_info ''/thump/'' s'))
         | _ \<Rightarrow> heartbeat interval n s')"

definition quit :: "bot \<Rightarrow> bot" where
  "quit s =
     client_close
       (case heartbeat_task s of
          None \<Rightarrow> s
        | Some t \<Rightarrow> s\<lparr>heartbeat_task := Some (task_cancel t)\<rparr>)"

definition main_start :: "bot \<Rightarrow> bot" where
  \<comment> \<open>\<^verbatim>\<open>main\<close> up to \<^verbatim>\<open>client.run\<close>: the start line, then the heartbeat task is created.\<close>
  "main_start s = (logger_info ''=== STARTED ==='' s)\<lparr>heartbeat_task := Some Pending\<rparr>"

subsection \<open>\<^verbatim>\<open>BotConfig\<close> and its property getters\<close>

text \<open>
  A \<^verbatim>\<open>ConfigParser\<close> after reading the file: the options of the default section and
  those of every other section. Its name for the default section is a field, as in the
  library.
\<close>

record config_parser =
  default_section :: string
  defaults :: "string \<rightharpoonup> string"
  sections :: "string \<rightharpoonup> (string \<rightharpoonup> string)"

text \<open>
  What the getter calls in the Python library and the code does not define: the value
  interpolation of the parser and the conversions \<^verbatim>\<open>int\<close> and \<^verbatim>\<open>float\<close> of a
  string. Each gives \<open>None\<close> where the library raises.
\<close>

record pylib =
  interpolate :: "string \<Rightarrow> string option"
  py_int :: "string \<Rightarrow> int option"
  py_float :: "string \<Rightarrow> real option"

datatype dtype = DStr | DBool | DInt | DFloat

datatype pyvalue = VStr string | VBool bool | VInt int | VFloat real

text \<open>\<^verbatim>\<open>key in parser\<close>: the default section always is; another one when it has been read.\<close>

definition config_contains :: "config_parser \<Rightarrow> string \<Rightarrow> bool" where
  "config_contains cfg key = (key = default_section cfg \<or> sections cfg key \<noteq> None)"

text \<open>\<^verbatim>\<open>parser[key]\<close>: the options visible in a section; \<^verbatim>\<open>KeyError\<close> for an unknown one.\<close>

definition config_getitem :: "config_parser \<Rightarrow> string \<Rightarrow> error + (string \<rightharpoonup> string)" where
  "config_getitem cfg key =
     (if key = default_section cfg then Inr (defaults cfg)
      else case sections cfg key of
             None \<Rightarrow> Inl KeyError
           | Some opts \<Rightarrow> Inr (defaults cfg ++ opts))"

text \<open>
  \<^verbatim>\<open>section.get(name)\<close> and its converting variants, with the fallback \<^verbatim>\<open>None\<close>
  for a missing option: \<open>Inr None\<close> is that fallback, \<open>Inl\<close> an exception.
\<close>

definition section_get :: "pylib \<Rightarrow> (string \<rightharpoonup> string) \<Rightarrow> string \<Rightarrow> error + string option" where
  "section_get lib section name =
     (case section name of
        None \<Rightarrow> Inr None
      | Some raw \<Rightarrow>
          (case interpolate lib raw of None \<Rightarrow> Inl ValueError | Some v \<Rightarrow> Inr (Some v)))"

text \<open>
  The parser's conversion to a boolean looks \<^verbatim>\<open>value.lower()\<close> up among eight ASCII
  words.
\<close>

definition convert_to_boolean :: "string \<Rightarrow> bool option" where
  "convert_to_boolean v =
     (let l = ascii_lower v
      in if l \<in> set [''1'', ''yes'', ''true'', ''on''] then Some True
         else if l \<in> set [''0'', ''no'', ''false'', ''off''] then Some False
         else None)"

definition section_get_conv ::
  "pylib \<Rightarrow> (string \<Rightarrow> pyvalue option) \<Rightarrow> (string \<rightharpoonup> string) \<Rightarrow> string \<Rightarrow> error + pyvalue option" where
  "section_get_conv lib conv section name =
     (case section_get lib section name of
        Inl e \<Rightarrow> Inl e
      | Inr None \<Rightarrow> Inr None
      | Inr (Some v) \<Rightarrow> (case conv v of None \<Rightarrow> Inl ValueError | Some x \<Rightarrow> Inr (Some x)))"

text \<open>
  The \<^verbatim>\<open>get\<close> that \<^verbatim>\<open>_config_prop_build(name, datatype)\<close> builds. The membership
  test and the section lookup are outside its \<^verbatim>\<open>try\<close>; the bare \<^verbatim>\<open>except\<close> turns
  every exception of the read into \<^verbatim>\<open>None\<close>.
\<close>

definition prop_get :: "pylib \<Rightarrow> string \<Rightarrow> dtype \<Rightarrow> config_parser \<Rightarrow> error + pyvalue option" where
  "prop_get lib name datatype cfg =
     (if \<not> config_contains cfg (default_section cfg) then Inr None
      else case config_getitem cfg (default_section cfg) of
             Inl e \<Rightarrow> Inl e
           | Inr section \<Rightarrow>
               (case (case datatype of
                        DBool \<Rightarrow> section_get_conv lib (map_option VBool \<circ> convert_to_boolean) section name
                      | DInt \<Rightarrow> section_get_conv lib (map_option VInt \<circ> py_int lib) section name
                      | DFloat \<Rightarrow> section_get_conv lib (map_option VFloat \<circ> py_float lib) section name
                      | DStr \<Rightarrow> section_get_conv lib (Some \<circ> VStr) section name) of
                  Inl e \<Rightarrow> Inr None
                | Inr v \<Rightarrow> Inr v))"

text \<open>The properties of \<^verbatim>\<open>BotConfig\<close>: name and datatype, \<^verbatim>\<open>str\<close> by default.\<close>

definition BotConfig_properties :: "(string \<times> dtype) list" where
  "BotConfig_properties =
     [(''log_path'', DStr), (''server_name'', DStr), (''channel_name'', DStr),
      (''send_interval'', DFloat), (''token'', DStr)]"

subsection \<open>Equality up to letter case\<close>

text \<open>
  The specification's "case-insensitive" match on ASCII names, stated on its own: two
  names have the same length and agree position by position, up to replacing a letter A
  to Z by its lower-case letter. It is compared below with equality after \<open>casefold\<close>.
\<close>

definition is_ascii_upper :: "char \<Rightarrow> bool" where
  "is_ascii_upper c = (65 \<le> (of_char c :: nat) \<and> (of_char c :: nat) \<le> 90)"

definition char_eq_ignoring_case :: "char \<Rightarrow> char \<Rightarrow> bool" where
  "char_eq_ignoring_case a b =
     (a = b \<or> (is_ascii_upper a \<and> (of_char b :: nat) = of_char a + 32)
            \<or> (is_ascii_upper b \<and> (of_char a :: nat) = of_char b + 32))"

definition eq_ignoring_case :: "string \<Rightarrow> string \<Rightarrow> bool" where
  "eq_ignoring_case x y = list_all2 char_eq_ignoring_case x y"

subsection \<open>Example inputs\<close>

text \<open>
  The scenario of the specification: the configuration names server \<^verbatim>\<open>Test\<close> and
  channel \<^verbatim>\<open>general\<close>; the client has joined one server, \<^verbatim>\<open>test\<close>, whose
  channels are \<^verbatim>\<open>random\<close>, \<^verbatim>\<open>General\<close> and \<^verbatim>\<open>GENERAL\<close>, in this order.
  \<open>ex_initial\<close> holds the globals as the module sets them, \<open>ex_bot\<close> is the state
  once \<^verbatim>\<open>main\<close> has started the heartbeat task and the connection is ready,
  \<open>ex_active\<close> the state once both names are resolved.
\<close>

definition ex_general :: channel where
  "ex_general = \<lparr>c_id = ''11'', c_name = ''General''\<rparr>"

definition ex_random :: channel where
  "ex_random = \<lparr>c_id = ''12'', c_name = ''random''\<rparr>"

definition ex_shout :: channel where
  "ex_shout = \<lparr>c_id = ''13'', c_name = ''GENERAL''\<rparr>"

definition ex_server :: server where
  "ex_server =
     \<lparr>s_name = ''test'', channels = [ex_random, ex_general, ex_shout],
      roles = [\<lparr>r_name = ''@everyone'', position = 0\<rparr>, \<lparr>r_name = ''admin'', position = 3\<rparr>]\<rparr>"

definition ex_config :: bot_config where
  "ex_config =
     \<lparr>log_path = Some ''bot.log'', server_name = Some ''Test'', channel_name = Some ''general'',
      send_interval = Some 30, token = Some ''abc''\<rparr>"

definition ex_initial :: bot where
  "ex_initial =
     \<lparr>config = ex_config, client_user = \<lparr>u_name = ''smf'', u_id = ''1''\<rparr>,
      client_servers = [ex_server], client_is_closed = False, discord_server = None,
      discord_channel = None, top_role = None, heartbeat_task = None, clock = 0,
      logged = []\<rparr>"

definition ex_bot :: bot where
  "ex_bot = main_start ex_initial"

definition ex_active :: bot where
  "ex_active = ex_bot\<lparr>discord_server := Some ex_server, discord_channel := Some ex_general\<rparr>"

definition ex_hi :: message where
  "ex_hi = \<lparr>msg_id = ''7'', author = Member \<lparr>nick = Some ''Bob'', m_name = ''robert''\<rparr>,
            content = ''hi'', channel = ex_general\<rparr>"

definition ex_elsewhere :: message where
  "ex_elsewhere = \<lparr>msg_id = ''8'', author = Member \<lparr>nick = None, m_name = ''carol''\<rparr>,
                   content = ''psst'', channel = ex_random\<rparr>"

definition ex_hi_edited :: message where
  "ex_hi_edited = ex_hi\<lparr>content := ''hi there''\<rparr>"

text \<open>
  A message that a webhook posts on the target channel, and its edit: the author is a
  plain user.
\<close>

definition ex_webhook :: message where
  "ex_webhook = \<lparr>msg_id = ''9'', author = User \<lparr>u_name = ''deploy-hook'', u_id = ''42''\<rparr>,
                 content = ''build passed'', channel = ex_general\<rparr>"

definition ex_webhook_edited :: message where
  "ex_webhook_edited = ex_webhook\<lparr>content := ''build failed''\<rparr>"

definition ex_lib :: pylib where
  "ex_lib = \<lparr>interpolate = Some, py_int = (\<lambda>v. None),
             py_float = (\<lambda>v. if v = ''30'' then Some 30 else None)\<rparr>"

definition ex_parser :: config_parser where
  "ex_parser = \<lparr>default_section = ''DEFAULT'',
                defaults = [''send_interval'' \<mapsto> ''soon'', ''token'' \<mapsto> ''abc''],
                sections = Map.empty\<rparr>"

text \<open>
  Variants of the ready state: a configured server that the client has not joined, no
  configured server name at all, the channel name in capitals, and a channel name that
  the server does not have.
\<close>

definition ex_stranger :: bot where
  "ex_stranger = ex_bot\<lparr>config := ex_config\<lparr>server_name := Some ''Nowhere''\<rparr>\<rparr>"

definition ex_unnamed :: bot where
  "ex_unnamed = ex_bot\<lparr>config := ex_config\<lparr>server_name := None\<rparr>\<rparr>"

definition ex_shouting :: bot where
  "ex_shouting = ex_bot\<lparr>config := ex_config\<lparr>channel_name := Some ''GENERAL''\<rparr>\<rparr>"

definition ex_lost :: bot where
  "ex_lost = ex_bot\<lparr>config := ex_config\<lparr>channel_name := Some ''lobby''\<rparr>\<rparr>"

text \<open>
  A case fold for the examples: \<open>ascii_lower\<close> on ASCII characters, and beyond them
  the capital E with acute accent (bytes C3 89) becomes the small one (C3 A9) and the
  sharp s (C3 9F) becomes \<^verbatim>\<open>ss\<close>, as the library folds them.
\<close>

fun ex_casefold :: "string \<Rightarrow> string" where
  "ex_casefold [] = []"
| "ex_casefold [c] = [ascii_lower_char c]"
| "ex_casefold (c # d # cs) =
     (if c = CHR 0xC3 \<and> d = CHR 0x89 then CHR 0xC3 # CHR 0xA9 # ex_casefold cs
      else if c = CHR 0xC3 \<and> d = CHR 0x9F then ''ss'' @ ex_casefold cs
      else ascii_lower_char c # ex_casefold (d # cs))"

text \<open>
  Two joined servers whose names differ in letter case only, beyond ASCII: the first
  in small letters, the second in capitals; the configuration names the server in
  capitals.
\<close>

definition ex_ecole :: server where
  "ex_ecole = \<lparr>s_name = [CHR 0xC3, CHR 0xA9] @ ''cole'', channels = [ex_general],
               roles = [\<lparr>r_name = ''@everyone'', position = 0\<rparr>]\<rparr>"

definition ex_ECOLE :: server where
  "ex_ECOLE = \<lparr>s_name = [CHR 0xC3, CHR 0x89] @ ''COLE'', channels = [ex_shout],
               roles = [\<lparr>r_name = ''@everyone'', position = 0\<rparr>]\<rparr>"

definition ex_french :: bot where
  "ex_french =
     ex_bot\<lparr>config := ex_config\<lparr>server_name := Some ([CHR 0xC3, CHR 0x89] @ ''COLE'')\<rparr>,
            client_servers := [ex_ecole, ex_ECOLE]\<rparr>"

section \<open>Properties\<close>

subsection \<open>Auxiliary facts\<close>

lemmas ex_defs = ex_general_def ex_random_def ex_shout_def ex_server_def ex_config_def
  ex_initial_def ex_bot_def main_start_def
  ex_active_def ex_hi_def ex_elsewhere_def ex_hi_edited_def ex_webhook_def ex_webhook_edited_def
  ex_lib_def ex_parser_def
  ex_stranger_def ex_unnamed_def ex_shouting_def ex_lost_def ex_ecole_def ex_ECOLE_def
  ex_french_def

lemma of_char_ascii_lower_char:
  "(of_char (ascii_lower_char c) :: nat) = (if is_ascii_upper c then of_char c + 32 else of_char c)"
  by (simp add: ascii_lower_char_def is_ascii_upper_def Let_def)

lemma ascii_lower_char_eq_iff:
  "ascii_lower_char a = ascii_lower_char b \<longleftrightarrow> char_eq_ignoring_case a b"
proof -
  have "ascii_lower_char a = ascii_lower_char b \<longleftrightarrow>
        (of_char (ascii_lower_char a) :: nat) = of_char (ascii_lower_char b)"
    by simp
  also have "\<dots> \<longleftrightarrow> char_eq_ignoring_case a b"
    unfolding of_char_ascii_lower_char char_eq_ignoring_case_def is_ascii_upper_def
    by (auto)
  finally show ?thesis .
qed

lemma ascii_lower_eq_iff: "ascii_lower x = ascii_lower y \<longleftrightarrow> eq_ignoring_case x y"
  unfolding ascii_lower_def eq_ignoring_case_def
  by (auto simp add: list_eq_iff_nth_eq list_all2_conv_all_nth ascii_lower_char_eq_iff)

lemma casefold_ascii_eq_iff:
  assumes "\<forall>t. is_ascii t \<longrightarrow> casefold t = ascii_lower t" and "is_ascii a" and "is_ascii b"
  shows "casefold a = casefold b \<longleftrightarrow> eq_ignoring_case a b"
  using assms by (simp add: ascii_lower_eq_iff)

lemma ex_casefold_ascii: "is_ascii t \<Longrightarrow> ex_casefold t = ascii_lower t"
  by (induction t rule: ex_casefold.induct) (auto simp add: is_ascii_def ascii_lower_def)

lemma next_named_None:
  "next_named casefold name wanted es = None \<longleftrightarrow> (\<forall>e\<in>set es. casefold (name e) \<noteq> wanted)"
  by (induction es) auto

lemma next_named_first:
  "casefold (name e) = wanted \<Longrightarrow> \<forall>x\<in>set pre. casefold (name x) \<noteq> wanted \<Longrightarrow>
   next_named casefold name wanted (pre @ e # post) = Some e"
  by (induction pre) auto

lemma logger_info_fields [simp]:
  "logged (logger_info msg s) = logged s @ [(INFO, msg)]"
  "config (logger_info msg s) = config s"
  "client_user (logger_info msg s) = client_user s"
  "client_servers (logger_info msg s) = client_servers s"
  "client_is_closed (logger_info msg s) = client_is_closed s"
  "discord_server (logger_info msg s) = discord_server s"
  "discord_channel (logger_info msg s) = discord_channel s"
  "top_role (logger_info msg s) = top_role s"
  "heartbeat_task (logger_info msg s) = heartbeat_task s"
  "clock (logger_info msg s) = clock s"
  by (simp_all add: logger_info_def)

lemma logger_error_fields [simp]:
  "logged (logger_error msg s) = logged s @ [(ERROR, msg)]"
  "config (logger_error msg s) = config s"
  "client_user (logger_error msg s) = client_user s"
  "client_servers (logger_error msg s) = client_servers s"
  "client_is_closed (logger_error msg s) = client_is_closed s"
  "discord_server (logger_error msg s) = discord_server s"
  "discord_channel (logger_error msg s) = discord_channel s"
  "top_role (logger_error msg s) = top_role s"
  "heartbeat_task (logger_error msg s) = heartbeat_task s"
  "clock (logger_error msg s) = clock s"
  by (simp_all add: logger_error_def)

lemma client_close_fields [simp]:
  "logged (client_close s) = logged s"
  "config (client_close s) = config s"
  "client_user (client_close s) = client_user s"
  "client_servers (client_close s) = client_servers s"
  "client_is_closed (client_close s) = True"
  "discord_server (client_close s) = discord_server s"
  "discord_channel (client_close s) = discord_channel s"
  "top_role (client_close s) = top_role s"
  "heartbeat_task (client_close s) = heartbeat_task s"
  "clock (client_close s) = clock s"
  by (simp_all add: client_close_def)

lemma heartbeat_open:
  "heartbeat_task s = Some Pending \<Longrightarrow> \<not> client_is_closed s \<Longrightarrow>
   heartbeat interval n s =
     s\<lparr>clock := clock s + real n * interval,
       logged := logged s @ replicate n (INFO, ''/thump/'')\<rparr>"
proof (induction n arbitrary: s)
  case 0
  then show ?case by simp
next
  case (Suc n)
  let ?s' = "logger_info ''/thump/'' (s\<lparr>clock := clock s + interval\<rparr>)"
  have step: "heartbeat interval (Suc n) s = heartbeat interval n ?s'"
    using Suc.prems by simp
  have "heartbeat_task ?s' = Some Pending" "\<not> client_is_closed ?s'"
    using Suc.prems by simp_all
  then have "heartbeat interval n ?s' =
      ?s'\<lparr>clock := clock ?s' + real n * interval,
          logged := logged ?s' @ replicate n (INFO, ''/thump/'')\<rparr>"
    by (rule Suc.IH)
  then show ?case
    unfolding step
    by (simp add: logger_info_def replicate_append_same algebra_simps)
qed

lemma heartbeat_idle:
  "heartbeat_task s \<noteq> Some Pending \<Longrightarrow>
   heartbeat interval n s = s\<lparr>clock := clock s + real n * interval\<rparr>"
proof (induction n arbitrary: s)
  case 0
  then show ?case by simp
next
  case (Suc n)
  let ?s' = "s\<lparr>clock := clock s + interval\<rparr>"
  have step: "heartbeat interval (Suc n) s = heartbeat interval n ?s'"
    using Suc.prems by (simp add: Let_def split: option.split task.split)
  have "heartbeat_task ?s' \<noteq> Some Pending"
    using Suc.prems by simp
  then have "heartbeat interval n ?s' = ?s'\<lparr>clock := clock ?s' + real n * interval\<rparr>"
    by (rule Suc.IH)
  then show ?case
    unfolding step by (simp add: algebra_simps)
qed

lemma heartbeat_closed:
  "heartbeat_task s = Some Pending \<Longrightarrow> client_is_closed s \<Longrightarrow>
   heartbeat interval (Suc n) s =
     s\<lparr>clock := clock s + real (Suc n) * interval, heartbeat_task := Some Finished\<rparr>"
proof -
  assume a: "heartbeat_task s = Some Pending" "client_is_closed s"
  let ?s' = "s\<lparr>clock := clock s + interval, heartbeat_task := Some Finished\<rparr>"
  have "heartbeat interval (Suc n) s = heartbeat interval n ?s'"
    using a by simp
  also have "\<dots> = ?s'\<lparr>clock := clock ?s' + real n * interval\<rparr>"
    by (rule heartbeat_idle) simp
  finally show ?thesis by (simp add: algebra_simps)
qed

lemma char_eq_char_of: "c = char_of (n::nat) \<longleftrightarrow> take_bit 8 n = of_char c"
  using char_of_eq_iff [of n c] by auto

lemmas eval_defs = ascii_lower_def ascii_lower_char_def char_of_eq_iff char_eq_char_of
  str_nat.simps logger_info_def logger_error_def client_close_def

lemmas ic_defs = eq_ignoring_case_def char_eq_ignoring_case_def is_ascii_upper_def is_ascii_def

lemma quit_fields:
  "client_is_closed (quit s) = True"
  "heartbeat_task (quit s) = map_option task_cancel (heartbeat_task s)"
  "logged (quit s) = logged s"
  by (simp_all add: quit_def client_close_def split: option.split)

lemma prop_get_total:
  "\<exists>v. prop_get lib name dt cfg = Inr v"
  by (simp add: prop_get_def config_contains_def config_getitem_def split: sum.split)

lemma prop_get_missing:
  "defaults cfg name = None \<Longrightarrow> prop_get lib name dt cfg = Inr None"
  by (simp add: prop_get_def config_contains_def config_getitem_def section_get_conv_def
      section_get_def split: dtype.split)

lemma prop_get_unreadable:
  "defaults cfg name = Some raw \<Longrightarrow> interpolate lib raw = None \<Longrightarrow>
   prop_get lib name dt cfg = Inr None"
  by (simp add: prop_get_def config_contains_def config_getitem_def section_get_conv_def
      section_get_def split: dtype.split)

lemma prop_get_not_float:
  "defaults cfg name = Some raw \<Longrightarrow> interpolate lib raw = Some v \<Longrightarrow> py_float lib v = None \<Longrightarrow>
   prop_get lib name DFloat cfg = Inr None"
  by (simp add: prop_get_def config_contains_def config_getitem_def section_get_conv_def
      section_get_def)

lemma on_ready_no_server:
  assumes "server_name (config s) = Some sn"
    and "next_named casefold s_name (casefold sn) (client_servers s) = None"
  shows "on_ready casefold s =
    (None, client_close (logger_error (''Not a member of any server named '' @ [CHR 0x27]
                                      @ sn @ [CHR 0x27] @ ''!'')
       (logger_info (''Member of '' @ str_nat (length (client_servers s)) @ '' servers'')
         (logger_info (''Call me '' @ u_name (client_user s) @ '' ('' @ u_id (client_user s) @ '')'')
           (logger_info ''=== CONNECTED ==='' s)))))"
  using assms by (simp add: on_ready_def Let_def)

lemma on_ready_no_channel:
  assumes "server_name (config s) = Some sn"
    and "next_named casefold s_name (casefold sn) (client_servers s) = Some srv"
    and "channel_name (config s) = Some cn"
    and "next_named casefold c_name (casefold cn) (channels srv) = None"
  shows "on_ready casefold s =
    (None, client_close (logger_error ([CHR 0x27] @ s_name srv @ [CHR 0x27]
                                     @ '' does not have any channels named '' @ [CHR 0x27]
                                     @ cn @ [CHR 0x27] @ ''!'')
       ((logger_info (''Member of '' @ str_nat (length (client_servers s)) @ '' servers'')
         (logger_info (''Call me '' @ u_name (client_user s) @ '' ('' @ u_id (client_user s) @ '')'')
           (logger_info ''=== CONNECTED ==='' s)))\<lparr>discord_server := Some srv\<rparr>)))"
  using assms by (simp add: on_ready_def Let_def)

lemma on_ready_resolved:
  assumes "server_name (config s) = Some sn"
    and "next_named casefold s_name (casefold sn) (client_servers s) = Some srv"
    and "channel_name (config s) = Some cn"
    and "next_named casefold c_name (casefold cn) (channels srv) = Some ch"
  shows "discord_server (snd (on_ready casefold s)) = Some srv \<and>
         discord_channel (snd (on_ready casefold s)) = Some ch"
  using assms by (simp add: on_ready_def Let_def split: option.split)

lemma heartbeat_after_close:
  assumes "client_is_closed t"
  shows "logged (heartbeat interval n t) = logged t"
proof (cases "heartbeat_task t = Some Pending")
  case True
  show ?thesis
  proof (cases n)
    case 0
    then show ?thesis by simp
  next
    case (Suc j)
    then show ?thesis
      by (simp add: heartbeat_closed [OF True assms] del: heartbeat.simps)
  qed
next
  case False
  then show ?thesis by (simp add: heartbeat_idle)
qed

subsection \<open>Entity resolution\<close>

text \<open>
  Claim C1, as the code has it. When the configured server name equals, after the case
  fold, the name of none of the joined servers, or the resolved server has no channel
  whose name equals the configured channel name after the case fold, \<open>on_ready\<close>
  returns without an exception, logs one error line after its three information lines
  and closes the client itself. It does not go through \<open>quit\<close>: the heartbeat task is
  left as it was, not cancelled, and the target channel stays as it was. The task writes
  no further line over any number of periods, and a pending one has returned after its
  first wake-up, where it sees the closed client. This holds for every case fold, so for
  the library's.
\<close>

theorem on_ready_failure_closes_client:
  assumes "server_name (config s) = Some sn"
    and "(\<forall>x\<in>set (client_servers s). casefold (s_name x) \<noteq> casefold sn) \<or>
         (next_named casefold s_name (casefold sn) (client_servers s) = Some srv \<and>
          channel_name (config s) = Some cn \<and>
          (\<forall>c\<in>set (channels srv). casefold (c_name c) \<noteq> casefold cn))"
  shows "fst (on_ready casefold s) = None \<and>
         client_is_closed (snd (on_ready casefold s)) \<and>
         heartbeat_task (snd (on_ready casefold s)) = heartbeat_task s \<and>
         discord_channel (snd (on_ready casefold s)) = discord_channel s \<and>
         (\<exists>msg. logged (snd (on_ready casefold s)) =
                  logged s @
                  [(INFO, ''=== CONNECTED ===''),
                   (INFO, ''Call me '' @ u_name (client_user s) @ '' ('' @ u_id (client_user s) @ '')''),
                   (INFO, ''Member of '' @ str_nat (length (client_servers s)) @ '' servers''),
                   (ERROR, msg)]) \<and>
         logged (heartbeat interval n (snd (on_ready casefold s))) = logged (snd (on_ready casefold s)) \<and>
         (heartbeat_task s = Some Pending \<longrightarrow>
            heartbeat_task (heartbeat interval (Suc n) (snd (on_ready casefold s))) = Some Finished)"
proof -
  let ?t = "snd (on_ready casefold s)"
  have main: "fst (on_ready casefold s) = None \<and> client_is_closed ?t \<and>
      heartbeat_task ?t = heartbeat_task s \<and> discord_channel ?t = discord_channel s \<and>
      (\<exists>msg. logged ?t =
                  logged s @
                  [(INFO, ''=== CONNECTED ===''),
                   (INFO, ''Call me '' @ u_name (client_user s) @ '' ('' @ u_id (client_user s) @ '')''),
                   (INFO, ''Member of '' @ str_nat (length (client_servers s)) @ '' servers''),
                   (ERROR, msg)])"
    using assms(2)
  proof
    assume "\<forall>x\<in>set (client_servers s). casefold (s_name x) \<noteq> casefold sn"
    then have "next_named casefold s_name (casefold sn) (client_servers s) = None"
      by (simp add: next_named_None)
    then show ?thesis
      by (simp add: on_ready_no_server [OF assms(1)])
  next
    assume a: "next_named casefold s_name (casefold sn) (client_servers s) = Some srv \<and>
          channel_name (config s) = Some cn \<and>
          (\<forall>c\<in>set (channels srv). casefold (c_name c) \<noteq> casefold cn)"
    then have "next_named casefold c_name (casefold cn) (channels srv) = None"
      by (simp add: next_named_None)
    with a show ?thesis
      by (simp add: on_ready_no_channel [OF assms(1)])
  qed
  then have closed: "client_is_closed ?t" by simp
  have quiet: "logged (heartbeat interval n ?t) = logged ?t"
    using closed by (rule heartbeat_after_close)
  have fin: "heartbeat_task s = Some Pending \<longrightarrow>
            heartbeat_task (heartbeat interval (Suc n) ?t) = Some Finished"
  proof
    assume "heartbeat_task s = Some Pending"
    with main have p: "heartbeat_task ?t = Some Pending" by simp
    show "heartbeat_task (heartbeat interval (Suc n) ?t) = Some Finished"
      by (simp add: heartbeat_closed [OF p closed] del: heartbeat.simps)
  qed
  from main quiet fin show ?thesis by blast
qed

theorem on_ready_failure_closes_client_witness:
  "server_name (config ex_stranger) = Some ''Nowhere'' \<and>
   ex_casefold (s_name ex_server) \<noteq> ex_casefold ''Nowhere'' \<and>
   fst (on_ready ex_casefold ex_stranger) = None \<and>
   client_is_closed (snd (on_ready ex_casefold ex_stranger)) \<and>
   heartbeat_task (snd (on_ready ex_casefold ex_stranger)) = Some Pending \<and>
   logged (heartbeat 30 5 (snd (on_ready ex_casefold ex_stranger))) =
     logged (snd (on_ready ex_casefold ex_stranger)) \<and>
   heartbeat_task (heartbeat 30 (Suc 0) (snd (on_ready ex_casefold ex_stranger))) = Some Finished \<and>
   next_named ex_casefold s_name (ex_casefold ''Test'') (client_servers ex_lost) = Some ex_server \<and>
   channel_name (config ex_lost) = Some ''lobby'' \<and>
   fst (on_ready ex_casefold ex_lost) = None \<and>
   client_is_closed (snd (on_ready ex_casefold ex_lost)) \<and>
   heartbeat_task (snd (on_ready ex_casefold ex_lost)) = Some Pending \<and>
   discord_channel (snd (on_ready ex_casefold ex_lost)) = None"
  using on_ready_failure_closes_client
      [where casefold = ex_casefold and s = ex_stranger and sn = "''Nowhere''"
         and interval = 30 and n = 5]
    on_ready_failure_closes_client
      [where casefold = ex_casefold and s = ex_stranger and sn = "''Nowhere''"
         and interval = 30 and n = 0]
    on_ready_failure_closes_client
      [where casefold = ex_casefold and s = ex_lost and sn = "''Test''" and srv = ex_server
         and cn = "''lobby''" and interval = 30 and n = 0]
  by (simp add: ex_defs eval_defs del: heartbeat.simps)

text \<open>
  Claim C1 as stated fails: with a configured server that is not joined, resolution
  fails and the client is closed, yet the heartbeat task is still pending, where a call
  of \<open>quit\<close> would have cancelled it. The names of the example are ASCII, where the
  example's case fold is the library's.
\<close>

theorem on_ready_failure_leaves_heartbeat_counterexample:
  "server_name (config ex_stranger) = Some ''Nowhere'' \<and>
   next_named ex_casefold s_name (ex_casefold ''Nowhere'') (client_servers ex_stranger) = None \<and>
   fst (on_ready ex_casefold ex_stranger) = None \<and>
   client_is_closed (snd (on_ready ex_casefold ex_stranger)) \<and>
   heartbeat_task (snd (on_ready ex_casefold ex_stranger)) = Some Pending \<and>
   heartbeat_task (quit (snd (on_ready ex_casefold ex_stranger))) = Some Cancelled"
  by (simp add: on_ready_def ex_defs eval_defs quit_fields task_cancel_def)

text \<open>
  Claim C2. Resolution compares the names after the case fold and takes the first match:
  when the configured names are present, \<open>srv\<close> is the first joined server whose folded
  name equals the folded configured server name and \<open>ch\<close> the first channel of \<open>srv\<close>
  whose folded name equals the folded configured channel name, then \<open>on_ready\<close> leaves
  \<open>srv\<close> and \<open>ch\<close> as the resolved server and channel. This holds for every case fold,
  so for the library's and names of any letters. For a case fold that is \<open>ascii_lower\<close>
  on ASCII strings, as the library's is, two ASCII names match exactly when they are
  equal up to the case of their letters; so \<^verbatim>\<open>General\<close> matches \<^verbatim>\<open>general\<close> and
  \<^verbatim>\<open>GENERAL\<close>.
\<close>

theorem on_ready_matches_ignoring_case:
  assumes "server_name (config s) = Some sn" and "channel_name (config s) = Some cn"
    and "client_servers s = pre @ srv # post"
    and "casefold (s_name srv) = casefold sn"
    and "\<forall>x\<in>set pre. casefold (s_name x) \<noteq> casefold sn"
    and "channels srv = cpre @ ch # cpost"
    and "casefold (c_name ch) = casefold cn"
    and "\<forall>x\<in>set cpre. casefold (c_name x) \<noteq> casefold cn"
  shows "next_named casefold s_name (casefold sn) (client_servers s) = Some srv \<and>
         next_named casefold c_name (casefold cn) (channels srv) = Some ch \<and>
         discord_server (snd (on_ready casefold s)) = Some srv \<and>
         discord_channel (snd (on_ready casefold s)) = Some ch \<and>
         ((\<forall>t. is_ascii t \<longrightarrow> casefold t = ascii_lower t) \<longrightarrow>
            casefold ''General'' = casefold ''general'' \<and>
            casefold ''General'' = casefold ''GENERAL'' \<and>
            (\<forall>a b. is_ascii a \<and> is_ascii b \<longrightarrow>
                   (casefold a = casefold b) = eq_ignoring_case a b))"
proof -
  have srv: "next_named casefold s_name (casefold sn) (client_servers s) = Some srv"
    using assms(3,4,5) by (simp add: next_named_first)
  have ch: "next_named casefold c_name (casefold cn) (channels srv) = Some ch"
    using assms(6,7,8) by (simp add: next_named_first)
  have ascii: "casefold ''General'' = casefold ''general'' \<and>
            casefold ''General'' = casefold ''GENERAL'' \<and>
            (\<forall>a b. is_ascii a \<and> is_ascii b \<longrightarrow>
                   (casefold a = casefold b) = eq_ignoring_case a b)"
    if agree: "\<forall>t. is_ascii t \<longrightarrow> casefold t = ascii_lower t"
  proof -
    have g: "is_ascii ''General''" "is_ascii ''general''" "is_ascii ''GENERAL''"
      by (simp_all add: is_ascii_def)
    have "eq_ignoring_case ''General'' ''general''" "eq_ignoring_case ''General'' ''GENERAL''"
      by (simp_all add: eq_ignoring_case_def char_eq_ignoring_case_def is_ascii_upper_def)
    then have "casefold ''General'' = casefold ''general''"
        "casefold ''General'' = casefold ''GENERAL''"
      using casefold_ascii_eq_iff [OF agree] g by blast+
    moreover have "\<forall>a b. is_ascii a \<and> is_ascii b \<longrightarrow>
                   (casefold a = casefold b) = eq_ignoring_case a b"
      using casefold_ascii_eq_iff [OF agree] by blast
    ultimately show ?thesis by blast
  qed
  show ?thesis
    using srv ch on_ready_resolved [OF assms(1) srv assms(2) ch] ascii by blast
qed

theorem on_ready_matches_ignoring_case_witness:
  "ex_casefold ''test'' = ex_casefold ''Test'' \<and>
   ex_casefold ''General'' = ex_casefold ''general'' \<and>
   ex_casefold ''General'' = ex_casefold ''GENERAL'' \<and>
   ex_casefold ''random'' \<noteq> ex_casefold ''general'' \<and>
   discord_server (snd (on_ready ex_casefold ex_bot)) = Some ex_server \<and>
   discord_channel (snd (on_ready ex_casefold ex_bot)) = Some ex_general \<and>
   discord_channel (snd (on_ready ex_casefold ex_shouting)) = Some ex_general \<and>
   ex_casefold (s_name ex_ecole) = ex_casefold (s_name ex_ECOLE) \<and>
   discord_server (snd (on_ready ex_casefold ex_french)) = Some ex_ecole \<and>
   ex_casefold (''Stra'' @ [CHR 0xC3, CHR 0x9F] @ ''e'') = ex_casefold ''STRASSE''"
  using on_ready_matches_ignoring_case
      [where casefold = ex_casefold and s = ex_bot and sn = "''Test''" and cn = "''general''"
         and pre = "[]" and srv = ex_server and post = "[]" and cpre = "[ex_random]"
         and ch = ex_general and cpost = "[ex_shout]"]
    on_ready_matches_ignoring_case
      [where casefold = ex_casefold and s = ex_shouting and sn = "''Test''"
         and cn = "''GENERAL''" and pre = "[]" and srv = ex_server and post = "[]"
         and cpre = "[ex_random]" and ch = ex_general and cpost = "[ex_shout]"]
    on_ready_matches_ignoring_case
      [where casefold = ex_casefold and s = ex_french
         and sn = "[CHR 0xC3, CHR 0x89] @ ''COLE''" and cn = "''general''"
         and pre = "[]" and srv = ex_ecole and post = "[ex_ECOLE]" and cpre = "[]"
         and ch = ex_general and cpost = "[]"]
  by (simp add: ex_defs eval_defs ex_casefold_ascii)

text \<open>
  Claim C9 at an absent server name: \<open>on_ready\<close> raises \<^verbatim>\<open>AttributeError\<close> from
  \<^verbatim>\<open>config.server_name.casefold()\<close>, before its \<^verbatim>\<open>try\<close>; no error line is logged
  and the client is not closed. No name is folded on the way, so this holds whatever
  the case fold is.
\<close>

theorem on_ready_absent_name_raises:
  "fst (on_ready casefold ex_unnamed) = Some AttributeError \<and>
   \<not> client_is_closed (snd (on_ready casefold ex_unnamed)) \<and>
   logged (snd (on_ready casefold ex_unnamed)) =
     [(INFO, ''=== STARTED ===''), (INFO, ''=== CONNECTED ===''), (INFO, ''Call me smf (1)''),
      (INFO, ''Member of 1 servers'')]"
  by (simp add: on_ready_def ex_defs eval_defs)

subsection \<open>The heartbeat task\<close>

text \<open>
  Claim C3. For a positive interval, a pending heartbeat task on an open client logs
  exactly one \<^verbatim>\<open>/thump/\<close> line in each period of \<open>interval\<close> seconds: after \<open>k\<close>
  periods the log has grown by \<open>k\<close> such lines and the clock by \<open>k * interval\<close>. Once
  the task is cancelled, by \<^verbatim>\<open>Task.cancel\<close> alone or by \<open>quit\<close>, no line is added
  however many further periods \<open>m\<close> elapse. Once the client is closed the task adds no
  line either, and it has returned after the first further period.
\<close>

theorem heartbeat_one_line_per_period:
  assumes "0 < interval" and "heartbeat_task s = Some Pending" and "\<not> client_is_closed s"
  shows "logged (heartbeat interval k s) = logged s @ replicate k (INFO, ''/thump/'') \<and>
         clock (heartbeat interval k s) = clock s + real k * interval \<and>
         logged (heartbeat interval m ((heartbeat interval k s)\<lparr>heartbeat_task := Some (task_cancel Pending)\<rparr>))
           = logged s @ replicate k (INFO, ''/thump/'') \<and>
         logged (heartbeat interval m (quit (heartbeat interval k s)))
           = logged s @ replicate k (INFO, ''/thump/'') \<and>
         logged (heartbeat interval m (client_close (heartbeat interval k s)))
           = logged s @ replicate k (INFO, ''/thump/'') \<and>
         heartbeat_task (heartbeat interval (Suc m) (client_close (heartbeat interval k s)))
           = Some Finished"
proof -
  let ?t = "heartbeat interval k s"
  have t: "?t = s\<lparr>clock := clock s + real k * interval,
                   logged := logged s @ replicate k (INFO, ''/thump/'')\<rparr>"
    using assms(2,3) by (rule heartbeat_open)
  have c: "logged (heartbeat interval m (?t\<lparr>heartbeat_task := Some (task_cancel Pending)\<rparr>)) = logged ?t"
    by (subst heartbeat_idle) (simp_all add: task_cancel_def)
  have q: "logged (heartbeat interval m (quit ?t)) = logged ?t"
    by (subst heartbeat_idle) (simp_all add: quit_fields t assms(2) task_cancel_def)
  have pc: "heartbeat_task (client_close ?t) = Some Pending" "client_is_closed (client_close ?t)"
    by (simp_all add: t assms(2))
  have f: "heartbeat_task (heartbeat interval (Suc m) (client_close ?t)) = Some Finished"
    by (simp add: heartbeat_closed [OF pc] del: heartbeat.simps)
  have l: "logged (heartbeat interval m (client_close ?t)) = logged ?t"
  proof (cases m)
    case 0
    then show ?thesis by simp
  next
    case (Suc j)
    then show ?thesis by (simp add: heartbeat_closed [OF pc] del: heartbeat.simps)
  qed
  show ?thesis
    using c q f l by (simp add: t)
qed

theorem heartbeat_one_line_per_period_witness:
  "(0::real) < 30 \<and> heartbeat_task ex_active = Some Pending \<and> \<not> client_is_closed ex_active \<and>
   logged (heartbeat 30 2 ex_active) =
     [(INFO, ''=== STARTED ===''), (INFO, ''/thump/''), (INFO, ''/thump/'')] \<and>
   clock (heartbeat 30 2 ex_active) = 60 \<and>
   logged (heartbeat 30 3 (quit (heartbeat 30 2 ex_active))) =
     [(INFO, ''=== STARTED ===''), (INFO, ''/thump/''), (INFO, ''/thump/'')]"
  using heartbeat_one_line_per_period [where interval = 30 and s = ex_active and k = 2 and m = 3]
  by (simp add: ex_defs numeral_2_eq_2)

subsection \<open>The event handlers\<close>

text \<open>
  For an author who is a member of the server, the handlers of new and of edited
  messages on the target channel do what claims C7 and C4 say: one line with the
  nickname, or with the name when there is no nickname or an empty one; no line for an
  edit that leaves the content, and the three lines otherwise.
\<close>

lemma on_message_member_one_line:
  assumes "discord_channel s = Some target" and "c_id (channel m) = c_id target"
    and "author m = Member a"
  shows "on_message m s =
           (None, s\<lparr>logged := logged s @
              [(INFO, ''<'' @ (case nick a of None \<Rightarrow> m_name a
                                | Some n \<Rightarrow> if n = [] then m_name a else n)
                        @ ''> '' @ content m)]\<rparr>)"
  using assms by (simp add: on_message_def channel_ne_def logger_info_def nick_or_name_def)

lemma on_message_edit_unchanged:
  assumes "discord_channel s = Some target" and "c_id (channel after) = c_id target"
    and "content before = content after"
  shows "on_message_edit before after s = (None, s)"
  using assms by (simp add: on_message_edit_def)

lemma on_message_edit_member_three_lines:
  assumes "discord_channel s = Some target" and "c_id (channel after) = c_id target"
    and "author after = Member a" and "content before \<noteq> content after"
  shows "fst (on_message_edit before after s) = None \<and>
         logged (snd (on_message_edit before after s)) =
           logged s @
           [(INFO, ''EDITED: <'' @ (case nick a of None \<Rightarrow> m_name a
                                     | Some n \<Rightarrow> if n = [] then m_name a else n)
                     @ ''> '' @ msg_id before @ ''->'' @ msg_id after),
            (INFO, [CHR 0x09] @ content before),
            (INFO, [CHR 0x09] @ content after)]"
  using assms by (simp add: on_message_edit_def channel_ne_def nick_or_name_def)

text \<open>
  Claim C4 at an edit by an author who is not a member. The webhook's message is on the
  resolved target channel and its content has changed, yet the handler raises
  \<^verbatim>\<open>AttributeError\<close> on \<^verbatim>\<open>after.author.nick\<close> and leaves the state as it was: none
  of the three lines is logged.
\<close>

theorem on_message_edit_user_author_raises:
  "discord_channel ex_active = Some (channel ex_webhook_edited) \<and>
   content ex_webhook \<noteq> content ex_webhook_edited \<and>
   on_message_edit ex_webhook ex_webhook_edited ex_active = (Some AttributeError, ex_active)"
  by (simp add: on_message_edit_def channel_ne_def nick_or_name_def ex_defs)

text \<open>
  Claim C5. When a target channel is resolved and the channel of the event is another
  one, each of the three handlers returns without an exception and with the state as it
  was: no log line is written.
\<close>

theorem handlers_ignore_other_channel:
  assumes "discord_channel s = Some target"
    and "c_id (channel m) \<noteq> c_id target" and "c_id (channel after) \<noteq> c_id target"
  shows "on_message m s = (None, s) \<and> on_message_edit before after s = (None, s) \<and>
         on_message_delete m s = (None, s)"
  using assms by (simp add: on_message_def on_message_edit_def on_message_delete_def channel_ne_def)

theorem handlers_ignore_other_channel_witness:
  "discord_channel ex_active = Some ex_general \<and>
   c_id (channel ex_elsewhere) \<noteq> c_id ex_general \<and>
   on_message ex_elsewhere ex_active = (None, ex_active) \<and>
   on_message_edit ex_hi ex_elsewhere ex_active = (None, ex_active) \<and>
   on_message_delete ex_elsewhere ex_active = (None, ex_active)"
  using handlers_ignore_other_channel
      [where s = ex_active and target = ex_general and m = ex_elsewhere and after = ex_elsewhere
         and before = ex_hi]
  by (simp add: ex_defs)

text \<open>
  Claim C7 at a new message by an author who is not a member. The webhook's message is
  on the resolved target channel, yet the handler raises \<^verbatim>\<open>AttributeError\<close> on
  \<^verbatim>\<open>message.author.nick\<close> and leaves the state as it was: no line is logged. The
  member's message of the specification's scenario is logged as \<^verbatim>\<open><Bob> hi\<close>.
\<close>

theorem on_message_user_author_raises:
  "discord_channel ex_active = Some (channel ex_webhook) \<and>
   on_message ex_webhook ex_active = (Some AttributeError, ex_active) \<and>
   fst (on_message ex_hi ex_active) = None \<and>
   logged (snd (on_message ex_hi ex_active)) =
     [(INFO, ''=== STARTED ===''), (INFO, ''<Bob> hi'')]"
  by (simp add: on_message_def channel_ne_def nick_or_name_def ex_defs)

text \<open>
  Claim C10. While the target channel is unset, the guard of the handlers holds for
  every channel, and each of the three handlers returns without an exception and with
  the state as it was: no log line is written.
\<close>

theorem handlers_ignore_before_resolution:
  assumes "discord_channel s = None"
  shows "channel_ne c (discord_channel s) \<and>
         on_message m s = (None, s) \<and> on_message_edit before after s = (None, s) \<and>
         on_message_delete m s = (None, s)"
  using assms by (simp add: on_message_def on_message_edit_def on_message_delete_def channel_ne_def)

theorem handlers_ignore_before_resolution_witness:
  "discord_channel ex_bot = None \<and> on_message ex_hi ex_bot = (None, ex_bot) \<and>
   on_message_edit ex_hi ex_hi_edited ex_bot = (None, ex_bot) \<and>
   on_message_delete ex_hi ex_bot = (None, ex_bot)"
  using handlers_ignore_before_resolution
      [where s = ex_bot and m = ex_hi and before = ex_hi and after = ex_hi_edited]
  by (simp add: ex_defs)

subsection \<open>Shutdown\<close>

text \<open>
  Claim C6. \<open>quit\<close> is idempotent: a second call in succession gives the state of the
  first. After it the client is closed and the heartbeat task is not pending: a pending
  task is cancelled, a cancelled or finished one stays as it is, and nothing happens to
  a task that was never created. It writes no log line.
\<close>

theorem quit_idempotent:
  "quit (quit s) = quit s \<and> client_is_closed (quit s) \<and>
   heartbeat_task (quit s) = map_option task_cancel (heartbeat_task s) \<and>
   heartbeat_task (quit s) \<noteq> Some Pending \<and> logged (quit s) = logged s"
proof -
  have "quit (quit s) = quit s"
    by (simp add: quit_def client_close_def task_cancel_def split: option.split task.split)
  moreover have "heartbeat_task (quit s) \<noteq> Some Pending"
    by (simp add: quit_fields task_cancel_def split: option.split task.split)
  ultimately show ?thesis
    by (simp add: quit_fields)
qed

theorem quit_idempotent_witness:
  "quit (quit ex_active) = quit ex_active \<and> heartbeat_task (quit ex_active) = Some Cancelled"
  using quit_idempotent [of ex_active] by (simp add: ex_defs task_cancel_def)

subsection \<open>The configuration getters\<close>

text \<open>
  Claim C8. For each of the five properties of \<^verbatim>\<open>BotConfig\<close> the getter returns
  and never raises, whatever the parser holds. It returns \<^verbatim>\<open>None\<close> when the default
  section has no such option (as in a file without that section), when the value cannot
  be read, and, for the float property, when the value is not a float.
\<close>

theorem BotConfig_getters_never_raise:
  assumes "(name, dt) \<in> set BotConfig_properties"
  shows "(\<exists>v. prop_get lib name dt cfg = Inr v) \<and>
         (defaults cfg name = None \<longrightarrow> prop_get lib name dt cfg = Inr None) \<and>
         (\<forall>raw. defaults cfg name = Some raw \<and> interpolate lib raw = None \<longrightarrow>
                prop_get lib name dt cfg = Inr None) \<and>
         (\<forall>raw v. dt = DFloat \<and> defaults cfg name = Some raw \<and>
                  interpolate lib raw = Some v \<and> py_float lib v = None \<longrightarrow>
                  prop_get lib name dt cfg = Inr None)"
  using prop_get_total prop_get_missing prop_get_unreadable prop_get_not_float
  by blast

theorem BotConfig_getters_never_raise_witness:
  "(''send_interval'', DFloat) \<in> set BotConfig_properties \<and>
   (''server_name'', DStr) \<in> set BotConfig_properties \<and>
   defaults ex_parser ''send_interval'' = Some ''soon'' \<and>
   py_float ex_lib ''soon'' = None \<and>
   prop_get ex_lib ''send_interval'' DFloat ex_parser = Inr None \<and>
   defaults ex_parser ''server_name'' = None \<and>
   prop_get ex_lib ''server_name'' DStr ex_parser = Inr None"
  using BotConfig_getters_never_raise
      [where name = "''send_interval''" and dt = DFloat and lib = ex_lib and cfg = ex_parser]
    BotConfig_getters_never_raise
      [where name = "''server_name''" and dt = DStr and lib = ex_lib and cfg = ex_parser]
  by (simp add: BotConfig_properties_def ex_defs)

end
